theory Spec2Isabelle
  imports Main
begin

section \<open>Python values and the built-ins the dashboard connector uses\<close>

text \<open>
  The connector (\<^verbatim>\<open>heygen_dashboard_connector.py\<close>) works on whatever
  \<^verbatim>\<open>response.json()\<close> hands back, so the embedding carries a universe of Python
  values. A dict is an association list (insertion order is kept; lookup takes the first
  binding of a key). A float is carried by the text Python's \<^verbatim>\<open>str\<close> prints for
  it: the program only ever prints floats or tests them for truth. A string is the
  sequence of bytes of its generalised UTF-8 form, in which a lone surrogate code point
  (which JSON text can denote and a Python string can hold) is three bytes like any
  other code point of its range; the only characters the program looks at are ASCII.
\<close>

datatype pyval =
    PNone
  | PBool bool
  | PInt int
  | PFloat string
  | PStr string
  | PList "pyval list"
  | PDict "(string \<times> pyval) list"

datatype py_error =
    AttributeError
  | KeyError
  | TypeError
  | RequestException
  | HTTPError
  | JSONDecodeError
  | UnicodeEncodeError

type_synonym 'a result = "py_error + 'a"

text \<open>Sequencing of statements that may raise: the first exception wins.\<close>

definition py_bind :: "'a result \<Rightarrow> ('a \<Rightarrow> 'b result) \<Rightarrow> 'b result" where
  "py_bind m f = (case m of Inl e \<Rightarrow> Inl e | Inr a \<Rightarrow> f a)"

text \<open>
  Two things of the Python runtime are taken as parameters, since they are neither in the
  source nor expressible without a model of the interpreter: the \<^verbatim>\<open>repr\<close> text of
  a list or dict (what \<^verbatim>\<open>str\<close> yields on a container), and the double-precision
  computation \<^verbatim>\<open>round((total / monthly_quota) * 100, 2)\<close>, given by the text of
  the resulting float.
\<close>

record pyrt =
  repr_container :: "pyval \<Rightarrow> string"
  round_pct :: "int \<Rightarrow> int \<Rightarrow> string"

definition sq :: char where
  "sq = CHR 0x27"

definition nl :: char where
  "nl = CHR 0x0A"

definition digit_char :: "nat \<Rightarrow> char" where
  "digit_char n = ''0123456789'' ! n"

fun str_nat :: "nat \<Rightarrow> string" where
  "str_nat n = (if n < 10 then [digit_char n] else str_nat (n div 10) @ [digit_char (n mod 10)])"

declare str_nat.simps [simp del]

definition str_int :: "int \<Rightarrow> string" where
  "str_int i = (if i < 0 then CHR ''-'' # str_nat (nat (- i)) else str_nat (nat i))"

text \<open>\<^verbatim>\<open>str(x)\<close>\<close>

definition py_str :: "pyrt \<Rightarrow> pyval \<Rightarrow> string" where
  "py_str rt x =
     (case x of
        PNone \<Rightarrow> ''None''
      | PBool b \<Rightarrow> (if b then ''True'' else ''False'')
      | PInt i \<Rightarrow> str_int i
      | PFloat f \<Rightarrow> f
      | PStr s \<Rightarrow> s
      | PList xs \<Rightarrow> repr_container rt x
      | PDict kvs \<Rightarrow> repr_container rt x)"

text \<open>\<^verbatim>\<open>bool(x)\<close>, the truth value an \<^verbatim>\<open>if\<close> or \<^verbatim>\<open>or\<close> tests.\<close>

definition truthy :: "pyval \<Rightarrow> bool" where
  "truthy x =
     (case x of
        PNone \<Rightarrow> False
      | PBool b \<Rightarrow> b
      | PInt i \<Rightarrow> i \<noteq> 0
      | PFloat f \<Rightarrow> f \<noteq> ''0.0'' \<and> f \<noteq> ''-0.0''
      | PStr s \<Rightarrow> s \<noteq> []
      | PList xs \<Rightarrow> xs \<noteq> []
      | PDict kvs \<Rightarrow> kvs \<noteq> [])"

text \<open>\<^verbatim>\<open>x.get(k, default)\<close>: only a dict has the method.\<close>

definition py_get :: "pyval \<Rightarrow> string \<Rightarrow> pyval \<Rightarrow> pyval result" where
  "py_get x k dflt =
     (case x of
        PDict kvs \<Rightarrow> (case map_of kvs k of Some v \<Rightarrow> Inr v | None \<Rightarrow> Inr dflt)
      | _ \<Rightarrow> Inl AttributeError)"

text \<open>\<^verbatim>\<open>x[k]\<close> with a string key.\<close>

definition getitem :: "pyval \<Rightarrow> string \<Rightarrow> pyval result" where
  "getitem x k =
     (case x of
        PDict kvs \<Rightarrow> (case map_of kvs k of Some v \<Rightarrow> Inr v | None \<Rightarrow> Inl KeyError)
      | _ \<Rightarrow> Inl TypeError)"

text \<open>
  \<^verbatim>\<open>for v in x\<close>: a list yields its elements, a dict its keys, a string its
  characters as one-character strings; anything else is not iterable.
\<close>

definition py_iter :: "pyval \<Rightarrow> pyval list result" where
  "py_iter x =
     (case x of
        PList xs \<Rightarrow> Inr xs
      | PDict kvs \<Rightarrow> Inr (map (\<lambda>kv. PStr (fst kv)) kvs)
      | PStr s \<Rightarrow> Inr (map (\<lambda>c. PStr [c]) s)
      | _ \<Rightarrow> Inl TypeError)"

text \<open>\<^verbatim>\<open>x.lower()\<close>: only a string has the method.\<close>

definition lower_char :: "char \<Rightarrow> char" where
  "lower_char c =
     (if (65::nat) \<le> of_char c \<and> of_char c \<le> (90::nat)
      then char_of (of_char c + (32::nat)) else c)"

definition py_lower :: "pyval \<Rightarrow> string result" where
  "py_lower x = (case x of PStr s \<Rightarrow> Inr (map lower_char s) | _ \<Rightarrow> Inl AttributeError)"

text \<open>\<^verbatim>\<open>html.escape(s)\<close> with its default \<^verbatim>\<open>quote=True\<close>.\<close>

definition escape_char :: "char \<Rightarrow> string" where
  "escape_char c =
     (if c = CHR ''&'' then ''&amp;''
      else if c = CHR ''<'' then ''&lt;''
      else if c = CHR ''>'' then ''&gt;''
      else if c = CHR 0x22 then ''&quot;''
      else if c = CHR 0x27 then ''&#x27;''
      else [c])"

definition html_escape :: "string \<Rightarrow> string" where
  "html_escape s = concat (map escape_char s)"

text \<open>
  \<^verbatim>\<open>s.encode("utf-8")\<close>: a string that holds a surrogate code point cannot be
  encoded. In the generalised UTF-8 that carries strings here, a surrogate is the byte
  0xED followed by a byte from 0xA0 to 0xBF.
\<close>

fun has_surrogate :: "string \<Rightarrow> bool" where
  "has_surrogate (a # b # cs) =
     ((a = CHR 0xED \<and> (160::nat) \<le> of_char b \<and> of_char b \<le> (191::nat)) \<or>
      has_surrogate (b # cs))"
| "has_surrogate cs = False"

definition encode_utf8 :: "string \<Rightarrow> string result" where
  "encode_utf8 s = (if has_surrogate s then Inl UnicodeEncodeError else Inr s)"

text \<open>\<^verbatim>\<open>sep.join(parts)\<close>\<close>

fun join :: "string \<Rightarrow> string list \<Rightarrow> string" where
  "join sep [] = []"
| "join sep [x] = x"
| "join sep (x # y # ys) = x @ sep @ join sep (y # ys)"

text \<open>A \<^verbatim>\<open>for\<close> loop that appends one result per element and stops at the first exception.\<close>

fun for_each :: "('a \<Rightarrow> 'b result) \<Rightarrow> 'a list \<Rightarrow> 'b list result" where
  "for_each f [] = Inr []"
| "for_each f (x # xs) = py_bind (f x) (\<lambda>y. py_bind (for_each f xs) (\<lambda>ys. Inr (y # ys)))"

section \<open>Configuration\<close>

definition refresh_interval_seconds :: nat where
  "refresh_interval_seconds = 5 * 60"

definition html_template_content :: string where
  "html_template_content = ''</html>''"

section \<open>The shared variable and what the refresh thread does to the outside\<close>

text \<open>
  The state is the global \<^verbatim>\<open>dashboard_html\<close> together with a trace of what the
  refresh thread has done to the outside: a call of \<^verbatim>\<open>requests.get\<close>, an assignment
  to the global, an abandoned cycle, a call of \<^verbatim>\<open>time.sleep\<close>. Printing is left out.
  The lock makes the assignment and the read each one step; the embedding is sequential.
\<close>

datatype event =
    EvFetch
  | EvPublish string
  | EvAbandon py_error
  | EvSleep nat

record state =
  dashboard_html :: string
  trace :: "event list"

section \<open>fetch_videos\<close>

text \<open>
  What the network does to one call of \<^verbatim>\<open>requests.get\<close>: the call raises, or it
  returns a response with a status code and a body, which \<^verbatim>\<open>response.json()\<close>
  decodes to a value or fails to decode (\<open>None\<close>).
\<close>

datatype fetch_outcome =
    RequestFailed
  | Response nat "pyval option"

abbreviation Parsed :: "pyval \<Rightarrow> fetch_outcome" where
  "Parsed data \<equiv> Response 200 (Some data)"

text \<open>
  \<^verbatim>\<open>response.raise_for_status()\<close>, as the requests library has it: it raises for
  the client and server error codes, 400 to 599, and for no other status.
\<close>

definition raise_for_status :: "nat \<Rightarrow> unit result" where
  "raise_for_status code = (if 400 \<le> code \<and> code < 600 then Inl HTTPError else Inr ())"

text \<open>The statements inside \<^verbatim>\<open>try\<close>, given what the network does.\<close>

definition fetch_videos_try :: "fetch_outcome \<Rightarrow> pyval result" where
  "fetch_videos_try w =
     (case w of
        RequestFailed \<Rightarrow> Inl RequestException
      | Response code content \<Rightarrow>
          py_bind (raise_for_status code) (\<lambda>u.
          py_bind (case content of None \<Rightarrow> Inl JSONDecodeError | Some data \<Rightarrow> Inr data) (\<lambda>data.
          (case data of
             PDict kvs \<Rightarrow>
               (if ''videos'' \<in> fst ` set kvs then getitem data ''videos''
                else Inr (PList []))
           | PList xs \<Rightarrow> Inr data
           | _ \<Rightarrow> Inr (PList [])))))"

text \<open>
  The call itself: it sends the one request (recorded in the trace) and returns what the
  \<^verbatim>\<open>try\<close> block returns, or the empty list when that raises.
\<close>

definition fetch_videos :: "fetch_outcome \<Rightarrow> state \<Rightarrow> pyval result \<times> state" where
  "fetch_videos w s =
     (let s1 = s\<lparr>trace := trace s @ [EvFetch]\<rparr>
      in case fetch_videos_try w of
           Inl e \<Rightarrow> (Inr (PList []), s1)
         | Inr v \<Rightarrow> (Inr v, s1))"

section \<open>transform_video_data\<close>

definition opt_field :: "pyval \<Rightarrow> string \<Rightarrow> pyval result" where
  "opt_field v k =
     py_bind (py_get v k PNone) (\<lambda>x. if x \<noteq> PNone then py_get v k PNone else Inr PNone)"

definition transform_video :: "pyrt \<Rightarrow> pyval \<Rightarrow> pyval result" where
  "transform_video rt v =
     py_bind (py_get v ''id'' (PStr '''')) (\<lambda>vid.
     py_bind (py_get v ''title'' (PStr ''Untitled'')) (\<lambda>title.
     py_bind (py_get v ''template_name'' (PStr ''Unknown Template'')) (\<lambda>template_name.
     py_bind (py_get v ''voice_name'' (PStr ''Unknown Voice'')) (\<lambda>voice_name.
     py_bind (py_get v ''status'' (PStr ''unknown'')) (\<lambda>status.
     py_bind (py_get v ''created_at'' (PStr '''')) (\<lambda>created_at.
     py_bind (opt_field v ''completed_at'') (\<lambda>completed_at.
     py_bind (opt_field v ''thumbnail_url'') (\<lambda>thumbnail_url.
     py_bind (opt_field v ''video_url'') (\<lambda>video_url.
     py_bind (opt_field v ''duration'') (\<lambda>duration.
     Inr (PDict
       [(''id'', PStr (py_str rt vid)),
        (''title'', title),
        (''template_name'', template_name),
        (''voice_name'', voice_name),
        (''status'', status),
        (''created_at'', created_at),
        (''completed_at'', completed_at),
        (''thumbnail_url'', thumbnail_url),
        (''video_url'', video_url),
        (''duration'', duration)])))))))))))"

definition transform_video_data :: "pyrt \<Rightarrow> pyval \<Rightarrow> pyval list result" where
  "transform_video_data rt api_videos =
     py_bind (py_iter api_videos) (for_each (transform_video rt))"

section \<open>compute_api_usage_stats\<close>

text \<open>\<^verbatim>\<open>sum(1 for v in videos if v.get("status") == st)\<close>\<close>

fun count_status :: "string \<Rightarrow> pyval list \<Rightarrow> int result" where
  "count_status st [] = Inr 0"
| "count_status st (v # vs) =
     py_bind (py_get v ''status'' PNone) (\<lambda>x.
     py_bind (count_status st vs) (\<lambda>n. Inr ((if x = PStr st then 1 else 0) + n)))"

definition compute_api_usage_stats :: "pyrt \<Rightarrow> pyval list \<Rightarrow> pyval result" where
  "compute_api_usage_stats rt videos =
     (let total = int (length videos) in
      py_bind (count_status ''completed'' videos) (\<lambda>completed.
      py_bind (count_status ''processing'' videos) (\<lambda>processing.
      py_bind (count_status ''failed'' videos) (\<lambda>failed.
      let monthly_quota = 1000;
          remaining = max (monthly_quota - total) 0;
          usage_percentage =
            (if monthly_quota > 0 then round_pct rt total monthly_quota else ''0.0'')
      in Inr (PDict
           [(''total_videos'', PInt total),
            (''completed_videos'', PInt completed),
            (''processing_videos'', PInt processing),
            (''failed_videos'', PInt failed),
            (''monthly_quota'', PInt monthly_quota),
            (''remaining_quota'', PInt remaining),
            (''usage_percentage'', PFloat usage_percentage)])))))"

section \<open>generate_dashboard_html\<close>

text \<open>The local helper \<^verbatim>\<open>esc\<close>.\<close>

definition esc :: "pyrt \<Rightarrow> pyval \<Rightarrow> string" where
  "esc rt text = (if text \<noteq> PNone then html_escape (py_str rt text) else '''')"

text \<open>The body of the loop over the videos: the lines of one table row.\<close>

definition video_row :: "pyrt \<Rightarrow> pyval \<Rightarrow> string list result" where
  "video_row rt v =
     py_bind (py_get v ''status'' (PStr '''')) (\<lambda>st.
     py_bind (py_lower st) (\<lambda>status_lower.
     let status_class =
           (if status_lower = ''completed'' then ''status-completed''
            else if status_lower = ''processing'' then ''status-processing''
            else if status_lower = ''failed'' then ''status-failed''
            else '''')
     in
     py_bind (py_get v ''thumbnail_url'' PNone) (\<lambda>has_thumbnail.
     py_bind (if truthy has_thumbnail
              then py_bind (getitem v ''thumbnail_url'') (\<lambda>u.
                     Inr (''<img src='' @ [sq] @ esc rt u @ [sq] @ '' alt='Thumbnail' width='120'>''))
              else Inr ''N/A'') (\<lambda>thumbnail_html.
     py_bind (py_get v ''video_url'' PNone) (\<lambda>has_video.
     py_bind (if truthy has_video
              then py_bind (getitem v ''video_url'') (\<lambda>u.
                     Inr (''<a href='' @ [sq] @ esc rt u @ [sq] @ '' target='_blank'>Watch</a>''))
              else Inr ''N/A'') (\<lambda>video_link_html.
     py_bind (getitem v ''title'') (\<lambda>title.
     py_bind (getitem v ''template_name'') (\<lambda>template_name.
     py_bind (getitem v ''voice_name'') (\<lambda>voice_name.
     py_bind (getitem v ''status'') (\<lambda>status.
     py_bind (getitem v ''created_at'') (\<lambda>created_at.
     py_bind (getitem v ''completed_at'') (\<lambda>completed_at.
     py_bind (if truthy completed_at
              then py_bind (getitem v ''completed_at'') (\<lambda>c. Inr (esc rt c))
              else Inr ''N/A'') (\<lambda>completed_cell.
     py_bind (getitem v ''duration'') (\<lambda>duration.
     py_bind (if truthy duration
              then py_bind (getitem v ''duration'') (\<lambda>d. Inr (esc rt d))
              else Inr ''N/A'') (\<lambda>duration_cell.
     Inr [''      <tr>'',
          ''        <td>'' @ esc rt title @ ''</td>'',
          ''        <td>'' @ esc rt template_name @ ''</td>'',
          ''        <td>'' @ esc rt voice_name @ ''</td>'',
          ''        <td class='' @ [sq] @ status_class @ [sq] @ ''>'' @ esc rt status @ ''</td>'',
          ''        <td>'' @ esc rt created_at @ ''</td>'',
          ''        <td>'' @ completed_cell @ ''</td>'',
          ''        <td>'' @ duration_cell @ ''</td>'',
          ''        <td>'' @ thumbnail_html @ ''</td>'',
          ''        <td>'' @ video_link_html @ ''</td>'',
          ''      </tr>''])))))))))))))))"

text \<open>The lines of the page before the one that carries the timestamp.\<close>

definition html_head :: "nat \<Rightarrow> string list" where
  "html_head refresh_seconds =
     [''<!DOCTYPE html>'',
      ''<html lang='en'>'',
      ''<head>'',
      ''  <meta charset='UTF-8'>'',
      ''  <meta http-equiv='refresh' content='' @ [sq] @ str_nat refresh_seconds @ [sq] @ ''>'',
      ''  <meta name='viewport' content='width=device-width, initial-scale=1.0'>'',
      ''  <title>HeyGen Video Dashboard</title>'',
      ''  <style>'',
      ''    body { font-family: Arial, sans-serif; margin: 20px; background: #f9f9f9; }'',
      ''    h1 { color: #333; }'',
      ''    table { border-collapse: collapse; width: 100%; background: white; }'',
      ''    th, td { border: 1px solid #ccc; padding: 8px; text-align: left; }'',
      ''    th { background-color: #eee; }'',
      ''    tr:nth-child(even) { background-color: #f2f2f2; }'',
      ''    .status-completed { color: green; font-weight: bold; }'',
      ''    .status-processing { color: orange; font-weight: bold; }'',
      ''    .status-failed { color: red; font-weight: bold; }'',
      ''  </style>'',
      ''</head>'',
      ''<body>'',
      ''  <h1>HeyGen Video Dashboard</h1>'']"

text \<open>The fixed lines that open the table.\<close>

definition html_table_head :: "string list" where
  "html_table_head =
     [''  </ul>'',
      ''  <h2>Videos</h2>'',
      ''  <table>'',
      ''    <thead>'',
      ''      <tr>'',
      ''        <th>Title</th>'',
      ''        <th>Template</th>'',
      ''        <th>Voice</th>'',
      ''        <th>Status</th>'',
      ''        <th>Created At</th>'',
      ''        <th>Completed At</th>'',
      ''        <th>Duration</th>'',
      ''        <th>Thumbnail</th>'',
      ''        <th>Video Link</th>'',
      ''      </tr>'',
      ''    </thead>'',
      ''    <tbody>'']"

definition generate_dashboard_html :: "pyrt \<Rightarrow> pyval \<Rightarrow> string result" where
  "generate_dashboard_html rt dashboard_data =
     py_bind (getitem dashboard_data ''api_usage'') (\<lambda>api_usage.
     py_bind (getitem dashboard_data ''videos'') (\<lambda>videos.
     py_bind (getitem dashboard_data ''last_updated'') (\<lambda>last_updated.
     let refresh_seconds = refresh_interval_seconds in
     py_bind (getitem api_usage ''total_videos'') (\<lambda>total_videos.
     py_bind (getitem api_usage ''completed_videos'') (\<lambda>completed_videos.
     py_bind (getitem api_usage ''processing_videos'') (\<lambda>processing_videos.
     py_bind (getitem api_usage ''failed_videos'') (\<lambda>failed_videos.
     py_bind (getitem api_usage ''monthly_quota'') (\<lambda>monthly_quota.
     py_bind (getitem api_usage ''remaining_quota'') (\<lambda>remaining_quota.
     py_bind (getitem api_usage ''usage_percentage'') (\<lambda>usage_percentage.
     let html_parts =
           html_head refresh_seconds @
           [''  <p>Last Updated: '' @ esc rt last_updated @ ''</p>'',
            ''  <h2>API Usage Stats</h2>'',
            ''  <ul>'',
            ''    <li>Total Videos: '' @ esc rt total_videos @ ''</li>'',
            ''    <li>Completed Videos: '' @ esc rt completed_videos @ ''</li>'',
            ''    <li>Processing Videos: '' @ esc rt processing_videos @ ''</li>'',
            ''    <li>Failed Videos: '' @ esc rt failed_videos @ ''</li>'',
            ''    <li>Monthly Quota: '' @ esc rt monthly_quota @ ''</li>'',
            ''    <li>Remaining Quota: '' @ esc rt remaining_quota @ ''</li>'',
            ''    <li>Usage Percentage: '' @ esc rt usage_percentage @ ''%</li>''] @
           html_table_head
     in
     py_bind (py_iter videos) (\<lambda>vs.
     py_bind (for_each (video_row rt) vs) (\<lambda>rows.
     Inr (join [nl]
            (html_parts @ concat rows @
             [''    </tbody>'', ''  </table>'', html_template_content]))))))))))))))"

section \<open>The refresh loop\<close>

text \<open>
  Steps 2 and 3 of the \<^verbatim>\<open>try\<close> block: transform, compute the statistics, read the
  clock (already formatted by \<^verbatim>\<open>strftime\<close>), render.
\<close>

definition render_videos :: "pyrt \<Rightarrow> string \<Rightarrow> pyval \<Rightarrow> string result" where
  "render_videos rt now api_videos =
     py_bind (transform_video_data rt api_videos) (\<lambda>videos.
     py_bind (compute_api_usage_stats rt videos) (\<lambda>api_usage.
     let last_updated = now;
         dashboard_data =
           PDict [(''videos'', PList videos),
                  (''api_usage'', api_usage),
                  (''last_updated'', PStr last_updated)]
     in generate_dashboard_html rt dashboard_data))"

text \<open>
  One pass through the body of \<^verbatim>\<open>while True\<close> up to the sleep. The cycle's input
  is what the network answers to its request and what the clock reads.
\<close>

definition refresh_cycle :: "pyrt \<Rightarrow> fetch_outcome \<times> string \<Rightarrow> state \<Rightarrow> state" where
  "refresh_cycle rt c s =
     (case fetch_videos (fst c) s of
        (fetched, s1) \<Rightarrow>
          (case py_bind fetched (render_videos rt (snd c)) of
             Inr new_html \<Rightarrow>
               s1\<lparr>dashboard_html := new_html, trace := trace s1 @ [EvPublish new_html]\<rparr>
           | Inl e \<Rightarrow> s1\<lparr>trace := trace s1 @ [EvAbandon e]\<rparr>))"

definition sleep :: "nat \<Rightarrow> state \<Rightarrow> state" where
  "sleep n s = s\<lparr>trace := trace s @ [EvSleep n]\<rparr>"

text \<open>
  \<^verbatim>\<open>while True\<close> never returns; the list is the prefix of the cycles that have
  run so far, one input per cycle.
\<close>

fun refresh_dashboard_periodically ::
  "pyrt \<Rightarrow> (fetch_outcome \<times> string) list \<Rightarrow> state \<Rightarrow> state" where
  "refresh_dashboard_periodically rt [] s = s"
| "refresh_dashboard_periodically rt (c # cs) s =
     refresh_dashboard_periodically rt cs (sleep refresh_interval_seconds (refresh_cycle rt c s))"

text \<open>
  The value a cycle's \<^verbatim>\<open>try\<close> block ends with: the new page, or the exception that
  abandons the cycle.
\<close>

definition cycle_html :: "pyrt \<Rightarrow> fetch_outcome \<times> string \<Rightarrow> string result" where
  "cycle_html rt c =
     py_bind (case fetch_videos_try (fst c) of Inl e \<Rightarrow> Inr (PList []) | Inr v \<Rightarrow> Inr v)
       (render_videos rt (snd c))"

section \<open>The request handler and start-up\<close>

text \<open>
  What the client gets, and the exception the handler ends with, if any. The status line
  and the headers are sent before the body is encoded, so an encoding error leaves a
  response without a body.
\<close>

record response =
  status_code :: nat
  headers :: "(string \<times> string) list"
  body :: string
  raised :: "py_error option"

definition do_GET :: "string \<Rightarrow> state \<Rightarrow> response" where
  "do_GET path s =
     (if path = ''/'' \<or> path = ''/index.html''
      then
        (let content =
               (if dashboard_html s \<noteq> [] then dashboard_html s
                else ''<html><body><h1>Loading dashboard...</h1></body></html>'')
         in case encode_utf8 content of
              Inr encoded \<Rightarrow>
                \<lparr>status_code = 200,
                 headers = [(''Content-type'', ''text/html; charset=utf-8'')],
                 body = encoded,
                 raised = None\<rparr>
            | Inl e \<Rightarrow>
                \<lparr>status_code = 200,
                 headers = [(''Content-type'', ''text/html; charset=utf-8'')],
                 body = [],
                 raised = Some e\<rparr>)
      else
        \<lparr>status_code = 404,
         headers = [(''Content-type'', ''text/plain; charset=utf-8'')],
         body = ''404 Not Found'',
         raised = None\<rparr>)"

text \<open>The module-level initial value, and the value \<^verbatim>\<open>__main__\<close> stores before it starts the thread.\<close>

definition module_state :: state where
  "module_state = \<lparr>dashboard_html = '''', trace = []\<rparr>"

definition main_state :: state where
  "main_state =
     module_state\<lparr>dashboard_html :=
       ''<html><body><h1>Loading dashboard data, please wait...</h1></body></html>''\<rparr>"

section \<open>Predicates and sample inputs used to state the properties\<close>

definition is_dict :: "pyval \<Rightarrow> bool" where
  "is_dict v = (case v of PDict kvs \<Rightarrow> True | _ \<Rightarrow> False)"

definition is_list :: "pyval \<Rightarrow> bool" where
  "is_list v = (case v of PList xs \<Rightarrow> True | _ \<Rightarrow> False)"

definition has_key :: "pyval \<Rightarrow> string \<Rightarrow> bool" where
  "has_key v k = (case v of PDict kvs \<Rightarrow> k \<in> fst ` set kvs | _ \<Rightarrow> False)"

definition is_ascii :: "string \<Rightarrow> bool" where
  "is_ascii s = list_all (\<lambda>c. of_char c < (128::nat)) s"

text \<open>
  A runtime for the sample inputs: none of them prints a container, and for their small
  video counts CPython prints \<^verbatim>\<open>round((total / 1000) * 100, 2)\<close> as the tenths of
  \<^verbatim>\<open>total\<close> with one decimal.
\<close>

definition example_rt :: pyrt where
  "example_rt =
     \<lparr>repr_container = (\<lambda>x. ''[...]''),
      round_pct = (\<lambda>total quota. str_int (total div 10) @ ''.'' @ str_int (total mod 10))\<rparr>"

text \<open>A cycle whose fetch answers one well-formed video.\<close>

definition cycle_ok :: "fetch_outcome \<times> string" where
  "cycle_ok =
     (Parsed (PList [PDict [(''id'', PInt 1), (''title'', PStr ''Intro''),
                            (''status'', PStr ''completed'')]]),
      ''2024-01-01 00:00:00 UTC'')"

text \<open>A cycle whose \<^verbatim>\<open>requests.get\<close> raises.\<close>

definition cycle_fetch_failed :: "fetch_outcome \<times> string" where
  "cycle_fetch_failed = (RequestFailed, ''2024-01-01 00:05:00 UTC'')"

text \<open>A cycle whose fetch answers a list holding a number: the transformation raises.\<close>

definition cycle_bad_item :: "fetch_outcome \<times> string" where
  "cycle_bad_item = (Parsed (PList [PInt 3]), ''2024-01-01 00:10:00 UTC'')"

text \<open>A cycle whose fetch answers a video with a numeric status: the rendering raises.\<close>

definition cycle_bad_status :: "fetch_outcome \<times> string" where
  "cycle_bad_status =
     (Parsed (PList [PDict [(''status'', PInt 3)]]), ''2024-01-01 00:15:00 UTC'')"

text \<open>
  A cycle whose fetch answers a video whose title is the lone surrogate U+D800 (the JSON
  text \<^verbatim>\<open>[{"title": "\ud800"}]\<close>).
\<close>

definition cycle_surrogate :: "fetch_outcome \<times> string" where
  "cycle_surrogate =
     (Parsed (PList [PDict [(''title'', PStr [CHR 0xED, CHR 0xA0, CHR 0x80])]]),
      ''2024-01-01 00:20:00 UTC'')"

text \<open>A response with status 300 whose body is a list of one video.\<close>

definition response_300 :: fetch_outcome where
  "response_300 = Response 300 (Some (PList [PDict [(''id'', PInt 1)]]))"

definition videos_example :: "pyval list" where
  "videos_example =
     [PDict [(''status'', PStr ''completed'')], PDict [(''status'', PStr ''failed'')], PDict []]"

definition usage_example :: pyval where
  "usage_example =
     PDict [(''total_videos'', PInt 0), (''completed_videos'', PInt 0),
            (''processing_videos'', PInt 0), (''failed_videos'', PInt 0),
            (''monthly_quota'', PInt 1000), (''remaining_quota'', PInt 1000),
            (''usage_percentage'', PFloat ''0.0'')]"

definition data_example :: pyval where
  "data_example =
     PDict [(''videos'', PList []), (''api_usage'', usage_example),
            (''last_updated'', PStr ''2024-01-01 00:00:00 UTC'')]"

section \<open>Auxiliary facts\<close>

lemma py_bind_Inr [simp]: "py_bind (Inr a) f = f a"
  by (simp add: py_bind_def)

lemma py_bind_Inl [simp]: "py_bind (Inl e) f = Inl e"
  by (simp add: py_bind_def)

lemma py_bind_eq_Inr: "py_bind m f = Inr y \<longleftrightarrow> (\<exists>a. m = Inr a \<and> f a = Inr y)"
  by (cases m) simp_all

lemma py_get_dict:
  "py_get (PDict kvs) k d = Inr (case map_of kvs k of Some v \<Rightarrow> v | None \<Rightarrow> d)"
  by (simp add: py_get_def split: option.splits)

subsection \<open>Joining lines\<close>

lemma join_Cons: "ys \<noteq> [] \<Longrightarrow> join sep (x # ys) = x @ sep @ join sep ys"
  by (cases ys) simp_all

lemma join_append:
  "xs \<noteq> [] \<Longrightarrow> ys \<noteq> [] \<Longrightarrow> join sep (xs @ ys) = join sep xs @ sep @ join sep ys"
proof (induction xs)
  case Nil
  then show ?case by simp
next
  case (Cons x xs)
  show ?case
  proof (cases "xs = []")
    case True
    with Cons.prems show ?thesis by (simp add: join_Cons)
  next
    case False
    with Cons show ?thesis by (simp add: join_Cons)
  qed
qed

lemma join_html_head:
  "\<exists>rest. join [nl] (html_head n @ xs) =
     ''<!DOCTYPE html>'' @ [nl] @ ''<html lang='en'>'' @ [nl] @ ''<head>'' @ [nl] @
     ''  <meta charset='UTF-8'>'' @ [nl] @
     ''  <meta http-equiv='refresh' content='' @ [sq] @ str_nat n @ [sq] @ ''>'' @ [nl] @ rest"
  unfolding html_head_def by (simp add: join_Cons del: join.simps)

subsection \<open>Surrogates and ASCII text\<close>

lemma has_surrogate_appendI1: "has_surrogate xs \<Longrightarrow> has_surrogate (xs @ ys)"
  by (induction xs rule: has_surrogate.induct) auto

lemma has_surrogate_appendI2: "has_surrogate ys \<Longrightarrow> has_surrogate (xs @ ys)"
proof (induction xs)
  case Nil
  then show ?case by simp
next
  case (Cons x xs)
  then have "has_surrogate (xs @ ys)" by simp
  then obtain b cs where "xs @ ys = b # cs"
    by (cases "xs @ ys") auto
  with \<open>has_surrogate (xs @ ys)\<close> show ?case by simp
qed

lemma has_surrogate_join:
  "x \<in> set xs \<Longrightarrow> has_surrogate x \<Longrightarrow> has_surrogate (join sep xs)"
proof (induction sep xs rule: join.induct)
  case (1 sep)
  then show ?case by simp
next
  case (2 sep y)
  then show ?case by simp
next
  case (3 sep y z zs)
  show ?case
  proof (cases "x = y")
    case True
    with "3.prems" show ?thesis by (simp add: has_surrogate_appendI1)
  next
    case False
    with "3.prems" have "x \<in> set (z # zs)" by simp
    with "3.IH" "3.prems" have "has_surrogate (join sep (z # zs))" by simp
    then show ?thesis by (simp add: has_surrogate_appendI2)
  qed
qed

lemma is_ascii_Nil [simp]: "is_ascii []"
  by (simp add: is_ascii_def)

lemma is_ascii_Cons [simp]:
  "is_ascii (c # cs) \<longleftrightarrow> of_char c < (128::nat) \<and> is_ascii cs"
  by (simp add: is_ascii_def)

lemma is_ascii_append [simp]: "is_ascii (xs @ ys) \<longleftrightarrow> is_ascii xs \<and> is_ascii ys"
  by (simp add: is_ascii_def)

lemma is_ascii_no_surrogate: "is_ascii s \<Longrightarrow> \<not> has_surrogate s"
proof (induction s rule: has_surrogate.induct)
  case (1 a b cs)
  then show ?case by (auto simp: is_ascii_def)
qed simp_all

lemma is_ascii_join: "is_ascii sep \<Longrightarrow> list_all is_ascii xs \<Longrightarrow> is_ascii (join sep xs)"
  by (induction sep xs rule: join.induct) simp_all

lemma is_ascii_html_escape: "is_ascii s \<Longrightarrow> is_ascii (html_escape s)"
  by (induction s) (simp_all add: html_escape_def escape_char_def is_ascii_def)

lemma is_ascii_digit_char: "n < 10 \<Longrightarrow> of_char (digit_char n) < (128::nat)"
proof -
  assume "n < 10"
  then have "digit_char n \<in> set ''0123456789''"
    unfolding digit_char_def by (intro nth_mem) simp
  moreover have "\<forall>c \<in> set ''0123456789''. of_char c < (128::nat)"
    by simp
  ultimately show ?thesis by blast
qed

lemma is_ascii_str_nat: "is_ascii (str_nat n)"
proof (induction n rule: str_nat.induct)
  case (1 n)
  show ?case
  proof (cases "n < 10")
    case True
    then show ?thesis by (subst str_nat.simps) (simp add: is_ascii_digit_char)
  next
    case False
    with 1 show ?thesis by (subst str_nat.simps) (simp add: is_ascii_digit_char)
  qed
qed

lemma is_ascii_str_int: "is_ascii (str_int i)"
proof (cases "i < 0")
  case True
  have "is_ascii (CHR ''-'' # str_nat (nat (- i)))"
    using is_ascii_str_nat [of "nat (- i)"] by (simp add: is_ascii_def)
  with True show ?thesis by (simp add: str_int_def)
next
  case False
  then show ?thesis by (simp add: str_int_def is_ascii_str_nat)
qed

lemma is_ascii_html_head: "list_all is_ascii (html_head n)"
proof -
  have "is_ascii [sq]" by (simp add: is_ascii_def sq_def)
  moreover have "is_ascii ''  <meta http-equiv='refresh' content=''"
    and "is_ascii ''>''" by (simp_all add: is_ascii_def)
  ultimately have "is_ascii (''  <meta http-equiv='refresh' content='' @ [sq] @ str_nat n @ [sq] @ ''>'')"
    using is_ascii_str_nat [of n] by (simp only: is_ascii_append simp_thms)
  then show ?thesis
    unfolding html_head_def by simp
qed

lemma is_ascii_html_table_head: "list_all is_ascii html_table_head"
  by (simp add: html_table_head_def)

subsection \<open>The shape of a rendered page\<close>

text \<open>Every rendered page starts with the fixed head and then the timestamp line.\<close>

lemma generate_shape:
  assumes "generate_dashboard_html rt d = Inr h"
    and "getitem d ''last_updated'' = Inr lu"
  shows "\<exists>rest. h = join [nl] (html_head refresh_interval_seconds) @ [nl] @
                    ''  <p>Last Updated: '' @ esc rt lu @ rest"
proof -
  from assms obtain xs where
    "h = join [nl] (html_head refresh_interval_seconds @
           (''  <p>Last Updated: '' @ esc rt lu @ ''</p>'') # ''  <h2>API Usage Stats</h2>'' # xs)"
    by (auto simp: generate_dashboard_html_def Let_def py_bind_eq_Inr)
  moreover have "html_head refresh_interval_seconds \<noteq> []"
    by (simp add: html_head_def)
  ultimately show ?thesis
    by (simp add: join_append del: join.simps) (simp add: join_Cons del: join.simps)
qed

lemma cycle_html_shape:
  assumes "cycle_html rt c = Inr h"
  shows "\<exists>rest. h = join [nl] (html_head refresh_interval_seconds) @ [nl] @
                    ''  <p>Last Updated: '' @ html_escape (snd c) @ rest"
proof -
  from assms obtain d where d: "generate_dashboard_html rt d = Inr h"
    and lu: "getitem d ''last_updated'' = Inr (PStr (snd c))"
    by (auto simp: cycle_html_def render_videos_def Let_def py_bind_eq_Inr getitem_def)
  from generate_shape [OF d lu] show ?thesis by (simp add: esc_def py_str_def)
qed

lemma cycle_html_nonempty: "cycle_html rt c = Inr h \<Longrightarrow> h \<noteq> []"
  using cycle_html_shape [of rt c h] by auto

subsection \<open>Single cycles\<close>

lemma fst_fetch_videos:
  "fst (fetch_videos w s) =
     (case fetch_videos_try w of Inl e \<Rightarrow> Inr (PList []) | Inr v \<Rightarrow> Inr v)"
  by (simp add: fetch_videos_def Let_def split: sum.splits)

lemma snd_fetch_videos: "snd (fetch_videos w s) = s\<lparr>trace := trace s @ [EvFetch]\<rparr>"
  by (simp add: fetch_videos_def Let_def split: sum.splits)

text \<open>A cycle in one equation: one request, then a publication or an abandoned cycle.\<close>

lemma refresh_cycle_eq:
  "refresh_cycle rt c s =
     (case cycle_html rt c of
        Inr new_html \<Rightarrow>
          s\<lparr>dashboard_html := new_html, trace := trace s @ [EvFetch, EvPublish new_html]\<rparr>
      | Inl e \<Rightarrow> s\<lparr>trace := trace s @ [EvFetch, EvAbandon e]\<rparr>)"
  by (simp add: refresh_cycle_def cycle_html_def fetch_videos_def Let_def split: sum.splits)

lemma refresh_cycle_failed:
  "cycle_html rt c = Inl e \<Longrightarrow>
   refresh_cycle rt c s = s\<lparr>trace := trace s @ [EvFetch, EvAbandon e]\<rparr>"
  by (simp add: refresh_cycle_eq)

lemma trace_refresh_cycle:
  "trace (refresh_cycle rt c s) =
     trace s @ [EvFetch, (case cycle_html rt c of Inr h \<Rightarrow> EvPublish h | Inl e \<Rightarrow> EvAbandon e)]"
  by (simp add: refresh_cycle_eq split: sum.splits)

lemma cycle_ok_publishes: "\<exists>h. cycle_html example_rt cycle_ok = Inr h"
  by (simp add: cycle_html_def render_videos_def cycle_ok_def fetch_videos_try_def
      raise_for_status_def transform_video_data_def py_iter_def transform_video_def py_get_def
      opt_field_def compute_api_usage_stats_def Let_def generate_dashboard_html_def getitem_def
      video_row_def py_lower_def truthy_def)

text \<open>The page of a cycle that has no videos to show.\<close>

lemma cycle_html_empty_eq:
  "cycle_html rt (Parsed (PList []), now) =
     Inr (join [nl]
            (html_head refresh_interval_seconds @
             [''  <p>Last Updated: '' @ esc rt (PStr now) @ ''</p>'',
              ''  <h2>API Usage Stats</h2>'',
              ''  <ul>'',
              ''    <li>Total Videos: '' @ esc rt (PInt 0) @ ''</li>'',
              ''    <li>Completed Videos: '' @ esc rt (PInt 0) @ ''</li>'',
              ''    <li>Processing Videos: '' @ esc rt (PInt 0) @ ''</li>'',
              ''    <li>Failed Videos: '' @ esc rt (PInt 0) @ ''</li>'',
              ''    <li>Monthly Quota: '' @ esc rt (PInt 1000) @ ''</li>'',
              ''    <li>Remaining Quota: '' @ esc rt (PInt 1000) @ ''</li>'',
              ''    <li>Usage Percentage: '' @ esc rt (PFloat (round_pct rt 0 1000)) @ ''%</li>''] @
             html_table_head @
             [''    </tbody>'', ''  </table>'', html_template_content]))"
  by (simp add: cycle_html_def render_videos_def fetch_videos_try_def raise_for_status_def
      transform_video_data_def py_iter_def compute_api_usage_stats_def Let_def
      generate_dashboard_html_def getitem_def)

lemma cycle_html_empty: "\<exists>h. cycle_html rt (Parsed (PList []), now) = Inr h"
  using cycle_html_empty_eq by blast

lemma cycle_html_empty_ascii:
  assumes "cycle_html rt (Parsed (PList []), now) = Inr h"
    and "is_ascii now" and "is_ascii (round_pct rt 0 1000)"
  shows "is_ascii h"
proof -
  have nl: "is_ascii [nl]" by (simp add: nl_def)
  have esc: "is_ascii (esc rt (PStr now))" "is_ascii (esc rt (PInt 0))"
    "is_ascii (esc rt (PInt 1000))" "is_ascii (esc rt (PFloat (round_pct rt 0 1000)))"
    using assms(2,3)
    by (simp_all add: esc_def py_str_def is_ascii_html_escape is_ascii_str_int)
  from assms(1) have "h = join [nl]
            (html_head refresh_interval_seconds @
             [''  <p>Last Updated: '' @ esc rt (PStr now) @ ''</p>'',
              ''  <h2>API Usage Stats</h2>'',
              ''  <ul>'',
              ''    <li>Total Videos: '' @ esc rt (PInt 0) @ ''</li>'',
              ''    <li>Completed Videos: '' @ esc rt (PInt 0) @ ''</li>'',
              ''    <li>Processing Videos: '' @ esc rt (PInt 0) @ ''</li>'',
              ''    <li>Failed Videos: '' @ esc rt (PInt 0) @ ''</li>'',
              ''    <li>Monthly Quota: '' @ esc rt (PInt 1000) @ ''</li>'',
              ''    <li>Remaining Quota: '' @ esc rt (PInt 1000) @ ''</li>'',
              ''    <li>Usage Percentage: '' @ esc rt (PFloat (round_pct rt 0 1000)) @ ''%</li>''] @
             html_table_head @
             [''    </tbody>'', ''  </table>'', html_template_content])"
    by (simp only: cycle_html_empty_eq sum.inject)
  moreover have "list_all is_ascii
            (html_head refresh_interval_seconds @
             [''  <p>Last Updated: '' @ esc rt (PStr now) @ ''</p>'',
              ''  <h2>API Usage Stats</h2>'',
              ''  <ul>'',
              ''    <li>Total Videos: '' @ esc rt (PInt 0) @ ''</li>'',
              ''    <li>Completed Videos: '' @ esc rt (PInt 0) @ ''</li>'',
              ''    <li>Processing Videos: '' @ esc rt (PInt 0) @ ''</li>'',
              ''    <li>Failed Videos: '' @ esc rt (PInt 0) @ ''</li>'',
              ''    <li>Monthly Quota: '' @ esc rt (PInt 1000) @ ''</li>'',
              ''    <li>Remaining Quota: '' @ esc rt (PInt 1000) @ ''</li>'',
              ''    <li>Usage Percentage: '' @ esc rt (PFloat (round_pct rt 0 1000)) @ ''%</li>''] @
             html_table_head @
             [''    </tbody>'', ''  </table>'', html_template_content])"
    using esc
    by (simp add: is_ascii_html_head is_ascii_html_table_head html_template_content_def)
  ultimately show ?thesis
    using nl by (simp only: is_ascii_join)
qed

lemma fetch_failed_same_as_empty:
  "fetch_videos_try w = Inl e \<Longrightarrow>
   cycle_html rt (w, now) = cycle_html rt (Parsed (PList []), now)"
  by (simp add: cycle_html_def fetch_videos_try_def raise_for_status_def)

lemma cycle_bad_item_raises: "cycle_html example_rt cycle_bad_item = Inl AttributeError"
  by (simp add: cycle_html_def render_videos_def cycle_bad_item_def fetch_videos_try_def
      raise_for_status_def transform_video_data_def py_iter_def transform_video_def py_get_def)

lemma cycle_surrogate_page:
  "\<exists>ls. cycle_html example_rt cycle_surrogate = Inr (join [nl] ls) \<and>
        (''        <td>'' @ esc example_rt (PStr [CHR 0xED, CHR 0xA0, CHR 0x80]) @ ''</td>'')
          \<in> set ls"
  apply (simp add: cycle_html_def render_videos_def cycle_surrogate_def fetch_videos_try_def
      raise_for_status_def transform_video_data_def py_iter_def transform_video_def py_get_def
      opt_field_def compute_api_usage_stats_def Let_def generate_dashboard_html_def getitem_def
      video_row_def py_lower_def truthy_def)
  apply (rule exI)
  apply (rule conjI)
   apply (rule refl)
  apply simp
  done

lemma cycle_surrogate_unencodable:
  "\<exists>h. cycle_html example_rt cycle_surrogate = Inr h \<and> has_surrogate h"
proof -
  from cycle_surrogate_page obtain ls where
    h: "cycle_html example_rt cycle_surrogate = Inr (join [nl] ls)"
    and m: "(''        <td>'' @ esc example_rt (PStr [CHR 0xED, CHR 0xA0, CHR 0x80]) @ ''</td>'')
              \<in> set ls"
    by blast
  have "has_surrogate
          (''        <td>'' @ esc example_rt (PStr [CHR 0xED, CHR 0xA0, CHR 0x80]) @ ''</td>'')"
    by (simp add: esc_def py_str_def html_escape_def escape_char_def)
  with m have "has_surrogate (join [nl] ls)" by (rule has_surrogate_join)
  with h show ?thesis by blast
qed

subsection \<open>The handler\<close>

lemma do_GET_unencodable:
  "has_surrogate (dashboard_html s) \<Longrightarrow>
   do_GET ''/'' s =
     \<lparr>status_code = 200,
      headers = [(''Content-type'', ''text/html; charset=utf-8'')],
      body = [],
      raised = Some UnicodeEncodeError\<rparr>"
proof -
  assume u: "has_surrogate (dashboard_html s)"
  then have "dashboard_html s \<noteq> []" by auto
  with u show ?thesis by (simp add: do_GET_def Let_def encode_utf8_def)
qed

text \<open>For a page that can be encoded, and for every other path, the handler routes as follows.\<close>

lemma do_GET_encodable:
  "\<not> has_surrogate (dashboard_html s) \<Longrightarrow>
   do_GET path s =
     (if path = ''/'' \<or> path = ''/index.html''
      then \<lparr>status_code = 200,
            headers = [(''Content-type'', ''text/html; charset=utf-8'')],
            body = (if dashboard_html s \<noteq> [] then dashboard_html s
                    else ''<html><body><h1>Loading dashboard...</h1></body></html>''),
            raised = None\<rparr>
      else \<lparr>status_code = 404,
            headers = [(''Content-type'', ''text/plain; charset=utf-8'')],
            body = ''404 Not Found'',
            raised = None\<rparr>)"
  by (simp add: do_GET_def Let_def encode_utf8_def)

subsection \<open>Several cycles\<close>


subsection \<open>Counting statuses\<close>

lemma count_status_bounds:
  "count_status ''completed'' vs = Inr c \<Longrightarrow> count_status ''processing'' vs = Inr p \<Longrightarrow>
   count_status ''failed'' vs = Inr f \<Longrightarrow>
   0 \<le> c \<and> 0 \<le> p \<and> 0 \<le> f \<and> c + p + f \<le> int (length vs)"
proof (induction vs arbitrary: c p f)
  case Nil
  then show ?case by simp
next
  case (Cons v vs)
  from Cons.prems(1) obtain x c' where x: "py_get v ''status'' PNone = Inr x"
    and c': "count_status ''completed'' vs = Inr c'"
    and c: "c = (if x = PStr ''completed'' then 1 else 0) + c'"
    by (auto simp: py_bind_eq_Inr)
  from Cons.prems(2) x obtain p' where p': "count_status ''processing'' vs = Inr p'"
    and p: "p = (if x = PStr ''processing'' then 1 else 0) + p'"
    by (auto simp: py_bind_eq_Inr)
  from Cons.prems(3) x obtain f' where f': "count_status ''failed'' vs = Inr f'"
    and f: "f = (if x = PStr ''failed'' then 1 else 0) + f'"
    by (auto simp: py_bind_eq_Inr)
  from Cons.IH [OF c' p' f'] show ?case
    unfolding c p f by auto
qed

lemma count_status_dicts:
  "list_all is_dict vs \<Longrightarrow> \<exists>n. count_status st vs = Inr n"
proof (induction vs)
  case Nil
  then show ?case by simp
next
  case (Cons v vs)
  then obtain kvs n where "v = PDict kvs" "count_status st vs = Inr n"
    by (cases v) (auto simp: is_dict_def)
  then show ?case by (simp add: py_get_dict)
qed

section \<open>The claims\<close>

subsection \<open>C10: usage statistics\<close>

text \<open>
  C10. For every list of videos, \<^verbatim>\<open>compute_api_usage_stats\<close> returns
  \<^verbatim>\<open>total_videos\<close> equal to the length of the list, \<^verbatim>\<open>remaining_quota\<close> equal to
  \<^verbatim>\<open>max(1000 - total_videos, 0)\<close>, which is never negative, and the completed,
  processing and failed counts add up to at most \<^verbatim>\<open>total_videos\<close>. On a list of
  dicts (what the transformation hands over) the function does return.
\<close>

theorem compute_api_usage_stats_counts:
  "(list_all is_dict videos \<longrightarrow> (\<exists>st. compute_api_usage_stats rt videos = Inr st)) \<and>
   (compute_api_usage_stats rt videos = Inr st \<longrightarrow>
      (\<exists>completed processing failed.
         getitem st ''total_videos'' = Inr (PInt (int (length videos))) \<and>
         getitem st ''remaining_quota'' = Inr (PInt (max (1000 - int (length videos)) 0)) \<and>
         0 \<le> max (1000 - int (length videos)) 0 \<and>
         getitem st ''completed_videos'' = Inr (PInt completed) \<and>
         getitem st ''processing_videos'' = Inr (PInt processing) \<and>
         getitem st ''failed_videos'' = Inr (PInt failed) \<and>
         completed + processing + failed \<le> int (length videos)))"
proof (intro conjI impI)
  assume d: "list_all is_dict videos"
  obtain c p f where "count_status ''completed'' videos = Inr c"
    "count_status ''processing'' videos = Inr p" "count_status ''failed'' videos = Inr f"
    using count_status_dicts [OF d] by meson
  then show "\<exists>st. compute_api_usage_stats rt videos = Inr st"
    by (simp add: compute_api_usage_stats_def Let_def)
next
  assume "compute_api_usage_stats rt videos = Inr st"
  then obtain c p f where c: "count_status ''completed'' videos = Inr c"
    and p: "count_status ''processing'' videos = Inr p"
    and f: "count_status ''failed'' videos = Inr f"
    and st: "st = PDict
           [(''total_videos'', PInt (int (length videos))),
            (''completed_videos'', PInt c),
            (''processing_videos'', PInt p),
            (''failed_videos'', PInt f),
            (''monthly_quota'', PInt 1000),
            (''remaining_quota'', PInt (max (1000 - int (length videos)) 0)),
            (''usage_percentage'', PFloat (round_pct rt (int (length videos)) 1000))]"
    by (auto simp: compute_api_usage_stats_def Let_def py_bind_eq_Inr)
  have "c + p + f \<le> int (length videos)"
    using count_status_bounds [OF c p f] by simp
  then show "\<exists>completed processing failed.
         getitem st ''total_videos'' = Inr (PInt (int (length videos))) \<and>
         getitem st ''remaining_quota'' = Inr (PInt (max (1000 - int (length videos)) 0)) \<and>
         0 \<le> max (1000 - int (length videos)) 0 \<and>
         getitem st ''completed_videos'' = Inr (PInt completed) \<and>
         getitem st ''processing_videos'' = Inr (PInt processing) \<and>
         getitem st ''failed_videos'' = Inr (PInt failed) \<and>
         completed + processing + failed \<le> int (length videos)"
    unfolding st by (simp add: getitem_def)
qed

theorem compute_api_usage_stats_counts_witness:
  "list_all is_dict videos_example \<and>
   compute_api_usage_stats example_rt videos_example =
     Inr (PDict
           [(''total_videos'', PInt 3),
            (''completed_videos'', PInt 1),
            (''processing_videos'', PInt 0),
            (''failed_videos'', PInt 1),
            (''monthly_quota'', PInt 1000),
            (''remaining_quota'', PInt 997),
            (''usage_percentage'', PFloat ''0.3'')]) \<and>
   (1::int) + 0 + 1 \<le> 3"
proof -
  have d: "list_all is_dict videos_example"
    by (simp add: videos_example_def is_dict_def)
  have v: "compute_api_usage_stats example_rt videos_example =
     Inr (PDict
           [(''total_videos'', PInt 3),
            (''completed_videos'', PInt 1),
            (''processing_videos'', PInt 0),
            (''failed_videos'', PInt 1),
            (''monthly_quota'', PInt 1000),
            (''remaining_quota'', PInt 997),
            (''usage_percentage'', PFloat ''0.3'')])"
    by (simp add: compute_api_usage_stats_def videos_example_def example_rt_def py_get_def
        Let_def str_int_def str_nat.simps digit_char_def)
  from compute_api_usage_stats_counts [of videos_example example_rt] d v
  show ?thesis by simp
qed

subsection \<open>C7: fetch_videos swallows every failure\<close>

text \<open>
  C7 as stated: \<^verbatim>\<open>fetch_videos\<close> returns the empty list on any request failure,
  on any non-2xx status, on a JSON decoding error and on a response that is neither a
  list nor a dict with a \<^verbatim>\<open>videos\<close> key. The part on the status does not hold:
  \<^verbatim>\<open>raise_for_status\<close> raises for 4xx and 5xx only, and a response with status 300
  whose body is a list of one video is returned like a 200 one.
\<close>

theorem fetch_videos_non_2xx_counterexample:
  "raise_for_status 300 = Inr () \<and>
   fst (fetch_videos response_300 main_state) = Inr (PList [PDict [(''id'', PInt 1)]]) \<and>
   fst (fetch_videos response_300 main_state) \<noteq> Inr (PList [])"
  by (simp add: fst_fetch_videos response_300_def fetch_videos_try_def raise_for_status_def)

text \<open>
  C7 as amended: \<^verbatim>\<open>fetch_videos\<close> never propagates an exception. It returns the
  empty list whenever the request raises, the status is a 4xx or 5xx one (the statuses
  for which \<^verbatim>\<open>raise_for_status\<close> raises), the body cannot be decoded, or the decoded
  value is neither a list nor a dict with a \<^verbatim>\<open>videos\<close> key; that is also what it
  returns for a successful response holding zero videos. A response with any other
  status is treated like one with status 200.
\<close>

theorem fetch_videos_swallows_errors:
  "(\<exists>v. fst (fetch_videos w s) = Inr v) \<and>
   (fetch_videos_try w = Inl e \<longrightarrow> fst (fetch_videos w s) = Inr (PList [])) \<and>
   (400 \<le> code \<and> code < 600 \<longrightarrow>
      fst (fetch_videos (Response code content) s) = Inr (PList [])) \<and>
   fst (fetch_videos (Response code None) s) = Inr (PList []) \<and>
   (\<not> is_list data \<and> \<not> has_key data ''videos'' \<longrightarrow>
      fst (fetch_videos (Response code (Some data)) s) = Inr (PList [])) \<and>
   fst (fetch_videos RequestFailed s) = fst (fetch_videos (Parsed (PList [])) s) \<and>
   (code < 400 \<or> 600 \<le> code \<longrightarrow>
      fst (fetch_videos (Response code (Some data)) s) = fst (fetch_videos (Parsed data) s))"
proof (intro conjI impI)
  show "\<exists>v. fst (fetch_videos w s) = Inr v"
    by (cases "fetch_videos_try w") (simp_all add: fst_fetch_videos)
  show "fst (fetch_videos w s) = Inr (PList [])" if "fetch_videos_try w = Inl e"
    using that by (simp add: fst_fetch_videos)
  show "fst (fetch_videos (Response code content) s) = Inr (PList [])"
    if "400 \<le> code \<and> code < 600"
    using that by (simp add: fst_fetch_videos fetch_videos_try_def raise_for_status_def)
  show "fst (fetch_videos (Response code None) s) = Inr (PList [])"
    by (simp add: fst_fetch_videos fetch_videos_try_def raise_for_status_def)
  show "fst (fetch_videos (Response code (Some data)) s) = Inr (PList [])"
    if "\<not> is_list data \<and> \<not> has_key data ''videos''"
    using that
    by (cases data)
      (simp_all add: fst_fetch_videos fetch_videos_try_def raise_for_status_def
        is_list_def has_key_def)
  show "fst (fetch_videos RequestFailed s) = fst (fetch_videos (Parsed (PList [])) s)"
    by (simp add: fst_fetch_videos fetch_videos_try_def raise_for_status_def)
  show "fst (fetch_videos (Response code (Some data)) s) = fst (fetch_videos (Parsed data) s)"
    if "code < 400 \<or> 600 \<le> code"
    using that by (auto simp: fst_fetch_videos fetch_videos_try_def raise_for_status_def)
qed

theorem fetch_videos_swallows_errors_witness:
  "fetch_videos_try RequestFailed = Inl RequestException \<and>
   fst (fetch_videos RequestFailed main_state) = Inr (PList []) \<and>
   (400::nat) \<le> 503 \<and> (503::nat) < 600 \<and>
   fst (fetch_videos (Response 503 (Some (PList [PInt 1]))) main_state) = Inr (PList []) \<and>
   \<not> is_list (PDict [(''error'', PStr ''quota'')]) \<and>
   \<not> has_key (PDict [(''error'', PStr ''quota'')]) ''videos'' \<and>
   fst (fetch_videos (Response 503 (Some (PDict [(''error'', PStr ''quota'')]))) main_state) =
     Inr (PList []) \<and>
   (300::nat) < 400 \<and>
   fst (fetch_videos (Response 300 (Some (PList [PInt 1]))) main_state) =
     fst (fetch_videos (Parsed (PList [PInt 1])) main_state)"
proof -
  have a: "fetch_videos_try RequestFailed = Inl RequestException"
    by (simp add: fetch_videos_try_def)
  have b: "\<not> is_list (PDict [(''error'', PStr ''quota'')]) \<and>
           \<not> has_key (PDict [(''error'', PStr ''quota'')]) ''videos''"
    by (simp add: is_list_def has_key_def)
  from fetch_videos_swallows_errors
      [of RequestFailed main_state RequestException 503 "Some (PList [PInt 1])"
        "PDict [(''error'', PStr ''quota'')]"]
    fetch_videos_swallows_errors
      [of RequestFailed main_state RequestException 300 None "PList [PInt 1]"]
    a b
  show ?thesis by simp
qed

subsection \<open>C4: path routing\<close>

text \<open>
  C4. A GET of exactly \<^verbatim>\<open>/\<close> or \<^verbatim>\<open>/index.html\<close> is to be answered with status
  200, content type \<^verbatim>\<open>text/html; charset=utf-8\<close> and the current artifact as body.
  The handler does not do so for every artifact: when a video title is a lone surrogate,
  the page is rendered and published, and the handler sends the status and the header
  and then raises while encoding the body, so that nothing of the page is written.
\<close>

theorem do_GET_unencodable_page:
  "trace (refresh_dashboard_periodically example_rt [cycle_surrogate] main_state) =
     [EvFetch,
      EvPublish
        (dashboard_html (refresh_dashboard_periodically example_rt [cycle_surrogate] main_state)),
      EvSleep 300] \<and>
   dashboard_html (refresh_dashboard_periodically example_rt [cycle_surrogate] main_state)
     \<noteq> [] \<and>
   do_GET ''/'' (refresh_dashboard_periodically example_rt [cycle_surrogate] main_state) =
     \<lparr>status_code = 200,
      headers = [(''Content-type'', ''text/html; charset=utf-8'')],
      body = [],
      raised = Some UnicodeEncodeError\<rparr>"
proof -
  obtain h where h: "cycle_html example_rt cycle_surrogate = Inr h" and u: "has_surrogate h"
    using cycle_surrogate_unencodable by blast
  from h have ne: "h \<noteq> []" by (rule cycle_html_nonempty)
  have d: "dashboard_html
      (refresh_dashboard_periodically example_rt [cycle_surrogate] main_state) = h"
    using h by (simp add: refresh_cycle_eq sleep_def)
  have t: "trace (refresh_dashboard_periodically example_rt [cycle_surrogate] main_state) =
      [EvFetch, EvPublish h, EvSleep 300]"
    using h
    by (simp add: refresh_cycle_eq sleep_def main_state_def module_state_def
        refresh_interval_seconds_def)
  have g: "do_GET ''/'' (refresh_dashboard_periodically example_rt [cycle_surrogate] main_state) =
     \<lparr>status_code = 200,
      headers = [(''Content-type'', ''text/html; charset=utf-8'')],
      body = [],
      raised = Some UnicodeEncodeError\<rparr>"
    by (rule do_GET_unencodable) (simp only: d u)
  from d t ne g show ?thesis by (simp only: simp_thms)
qed

subsection \<open>C5: what is served before anything has been published\<close>



subsection \<open>C3: a cycle that raises leaves the variable alone\<close>

text \<open>
  C3. If the transformation of the fetched data, the statistics or the HTML generation
  raises in a refresh cycle, that cycle does not assign \<^verbatim>\<open>dashboard_html\<close>: the value
  published before stays, the cycle is abandoned, the thread sleeps for the refresh
  interval and goes on with the next cycle.
\<close>

theorem failed_cycle_keeps_cache:
  assumes "fst (fetch_videos (fst c) s) = Inr api_videos"
    and "transform_video_data rt api_videos = Inl e \<or>
         (\<exists>videos. transform_video_data rt api_videos = Inr videos \<and>
            (compute_api_usage_stats rt videos = Inl e \<or>
             (\<exists>api_usage. compute_api_usage_stats rt videos = Inr api_usage \<and>
                generate_dashboard_html rt
                  (PDict [(''videos'', PList videos), (''api_usage'', api_usage),
                          (''last_updated'', PStr (snd c))]) = Inl e)))"
  shows "dashboard_html (refresh_cycle rt c s) = dashboard_html s \<and>
         refresh_dashboard_periodically rt (c # cs) s =
           refresh_dashboard_periodically rt cs
             (s\<lparr>trace := trace s @ [EvFetch, EvAbandon e, EvSleep refresh_interval_seconds]\<rparr>)"
proof -
  from assms have "cycle_html rt c = Inl e"
    by (auto simp: cycle_html_def render_videos_def fst_fetch_videos Let_def)
  then show ?thesis
    by (simp add: refresh_cycle_failed sleep_def)
qed

theorem failed_cycle_keeps_cache_witness:
  "fst (fetch_videos (fst cycle_bad_item) main_state) = Inr (PList [PInt 3]) \<and>
   transform_video_data example_rt (PList [PInt 3]) = Inl AttributeError \<and>
   dashboard_html (refresh_cycle example_rt cycle_bad_item main_state) =
     dashboard_html main_state \<and>
   refresh_dashboard_periodically example_rt [cycle_bad_item, cycle_ok] main_state =
     refresh_dashboard_periodically example_rt [cycle_ok]
       (main_state\<lparr>trace := [EvFetch, EvAbandon AttributeError, EvSleep 300]\<rparr>) \<and>
   fst (fetch_videos (fst cycle_bad_status) main_state) =
     Inr (PList [PDict [(''status'', PInt 3)]]) \<and>
   dashboard_html (refresh_cycle example_rt cycle_bad_status main_state) =
     dashboard_html main_state"
proof -
  have f1: "fst (fetch_videos (fst cycle_bad_item) main_state) = Inr (PList [PInt 3])"
    by (simp add: cycle_bad_item_def fst_fetch_videos fetch_videos_try_def raise_for_status_def)
  have t1: "transform_video_data example_rt (PList [PInt 3]) = Inl AttributeError"
    by (simp add: transform_video_data_def py_iter_def transform_video_def py_get_def)
  have f2: "fst (fetch_videos (fst cycle_bad_status) main_state) =
      Inr (PList [PDict [(''status'', PInt 3)]])"
    by (simp add: cycle_bad_status_def fst_fetch_videos fetch_videos_try_def raise_for_status_def)
  have t2: "transform_video_data example_rt (PList [PDict [(''status'', PInt 3)]]) = Inl AttributeError \<or>
         (\<exists>videos. transform_video_data example_rt (PList [PDict [(''status'', PInt 3)]]) = Inr videos \<and>
            (compute_api_usage_stats example_rt videos = Inl AttributeError \<or>
             (\<exists>api_usage. compute_api_usage_stats example_rt videos = Inr api_usage \<and>
                generate_dashboard_html example_rt
                  (PDict [(''videos'', PList videos), (''api_usage'', api_usage),
                          (''last_updated'', PStr (snd cycle_bad_status))]) = Inl AttributeError)))"
    by (simp add: transform_video_data_def py_iter_def transform_video_def py_get_def
        opt_field_def compute_api_usage_stats_def Let_def generate_dashboard_html_def
        getitem_def video_row_def py_lower_def)
  from failed_cycle_keeps_cache [OF f1 disjI1, OF t1, of "[cycle_ok]"]
    failed_cycle_keeps_cache [OF f2 t2, of "[]"] f1 t1 f2
  show ?thesis
    by (simp add: main_state_def module_state_def refresh_interval_seconds_def)
qed

subsection \<open>C6: one fetch and one full sleep per cycle\<close>

text \<open>
  C6. Whatever the cycles do, each of them sends one request (the event the call of
  \<^verbatim>\<open>fetch_videos\<close> leaves in the trace), then either publishes or is abandoned, and
  then the thread sleeps for the refresh interval, which is 300 seconds, before the next
  request: the trace of any number of cycles is that block of three events, once per
  cycle, and it holds as many requests as cycles have run.
\<close>

theorem cycle_cadence:
  "trace (refresh_dashboard_periodically rt cs s) =
     trace s @
     concat (map (\<lambda>c. [EvFetch,
                        (case cycle_html rt c of Inr h \<Rightarrow> EvPublish h | Inl e \<Rightarrow> EvAbandon e),
                        EvSleep refresh_interval_seconds]) cs) \<and>
   length (filter (\<lambda>ev. ev = EvFetch) (trace (refresh_dashboard_periodically rt cs s))) =
     length (filter (\<lambda>ev. ev = EvFetch) (trace s)) + length cs \<and>
   refresh_interval_seconds = 300"
proof (intro conjI)
  show "trace (refresh_dashboard_periodically rt cs s) =
     trace s @
     concat (map (\<lambda>c. [EvFetch,
                        (case cycle_html rt c of Inr h \<Rightarrow> EvPublish h | Inl e \<Rightarrow> EvAbandon e),
                        EvSleep refresh_interval_seconds]) cs)"
    by (induction cs arbitrary: s) (simp_all add: sleep_def trace_refresh_cycle)
  show "length (filter (\<lambda>ev. ev = EvFetch) (trace (refresh_dashboard_periodically rt cs s))) =
     length (filter (\<lambda>ev. ev = EvFetch) (trace s)) + length cs"
    by (induction cs arbitrary: s)
      (simp_all add: sleep_def trace_refresh_cycle split: sum.splits)
  show "refresh_interval_seconds = 300"
    by (simp add: refresh_interval_seconds_def)
qed

theorem cycle_cadence_witness:
  "trace (refresh_dashboard_periodically example_rt [cycle_bad_item, cycle_bad_item] main_state) =
     [EvFetch, EvAbandon AttributeError, EvSleep 300,
      EvFetch, EvAbandon AttributeError, EvSleep 300]"
  using cycle_cadence [of example_rt "[cycle_bad_item, cycle_bad_item]" main_state]
  by (simp add: cycle_bad_item_raises main_state_def module_state_def)

subsection \<open>C9: the refresh hint is part of the artifact\<close>

text \<open>
  C9. Every artifact the renderer produces carries, as its fifth line, the meta refresh
  tag whose content is the configured refresh interval in seconds, 300; the handler
  itself sends no header but the content type.
\<close>

theorem refresh_hint_in_artifact:
  assumes "generate_dashboard_html rt d = Inr h"
  shows "(\<exists>rest. h =
           ''<!DOCTYPE html>'' @ [nl] @ ''<html lang='en'>'' @ [nl] @ ''<head>'' @ [nl] @
           ''  <meta charset='UTF-8'>'' @ [nl] @
           ''  <meta http-equiv='refresh' content='' @ [sq] @
           str_nat refresh_interval_seconds @ [sq] @ ''>'' @ [nl] @ rest) \<and>
         str_nat refresh_interval_seconds = ''300'' \<and>
         map fst (headers (do_GET path s)) = [''Content-type'']"
proof (intro conjI)
  from assms obtain xs where "h = join [nl] (html_head refresh_interval_seconds @ xs)"
    by (auto simp: generate_dashboard_html_def Let_def py_bind_eq_Inr)
  then show "\<exists>rest. h =
           ''<!DOCTYPE html>'' @ [nl] @ ''<html lang='en'>'' @ [nl] @ ''<head>'' @ [nl] @
           ''  <meta charset='UTF-8'>'' @ [nl] @
           ''  <meta http-equiv='refresh' content='' @ [sq] @
           str_nat refresh_interval_seconds @ [sq] @ ''>'' @ [nl] @ rest"
    using join_html_head [of refresh_interval_seconds xs] by simp
  show "str_nat refresh_interval_seconds = ''300''"
    by (simp add: refresh_interval_seconds_def str_nat.simps digit_char_def)
  show "map fst (headers (do_GET path s)) = [''Content-type'']"
    by (simp add: do_GET_def Let_def split: sum.splits)
qed

theorem refresh_hint_in_artifact_witness:
  "\<exists>rest. generate_dashboard_html example_rt data_example =
     Inr (''<!DOCTYPE html>'' @ [nl] @ ''<html lang='en'>'' @ [nl] @ ''<head>'' @ [nl] @
          ''  <meta charset='UTF-8'>'' @ [nl] @
          ''  <meta http-equiv='refresh' content='' @ [sq] @ ''300'' @ [sq] @ ''>'' @ [nl] @
          rest)"
proof -
  obtain h where h: "generate_dashboard_html example_rt data_example = Inr h"
    by (simp add: generate_dashboard_html_def data_example_def usage_example_def getitem_def
        py_iter_def Let_def)
  from refresh_hint_in_artifact [OF h, of "''/''" main_state] h show ?thesis
    by auto
qed

subsection \<open>C1: what a failed fetch does to the published artifact\<close>

text \<open>
  C1 as stated: if the fetch of cycle N fails after cycle N-1 has published, cycle N does
  not touch the variable and a read after it still returns the artifact of cycle N-1.
  This does not hold. A first cycle publishes a page for one video; in the second,
  \<^verbatim>\<open>requests.get\<close> raises, and after it the variable holds another page.
\<close>

theorem stale_after_failed_fetch_counterexample:
  "fetch_videos_try (fst cycle_fetch_failed) = Inl RequestException \<and>
   trace (refresh_dashboard_periodically example_rt [cycle_ok] main_state) =
     [EvFetch,
      EvPublish (dashboard_html (refresh_dashboard_periodically example_rt [cycle_ok] main_state)),
      EvSleep 300] \<and>
   dashboard_html
     (refresh_dashboard_periodically example_rt [cycle_ok, cycle_fetch_failed] main_state) \<noteq>
   dashboard_html (refresh_dashboard_periodically example_rt [cycle_ok] main_state)"
proof -
  obtain h1 where h1: "cycle_html example_rt cycle_ok = Inr h1"
    using cycle_ok_publishes by blast
  have "cycle_html example_rt cycle_fetch_failed =
          cycle_html example_rt (Parsed (PList []), ''2024-01-01 00:05:00 UTC'')"
    unfolding cycle_fetch_failed_def
    by (rule fetch_failed_same_as_empty [of _ RequestException])
      (simp add: fetch_videos_try_def)
  then obtain h2 where h2: "cycle_html example_rt cycle_fetch_failed = Inr h2"
    using cycle_html_empty [of example_rt "''2024-01-01 00:05:00 UTC''"] by auto
  from cycle_html_shape [OF h1] obtain r1 where
    r1: "h1 = join [nl] (html_head refresh_interval_seconds) @ [nl] @
              ''  <p>Last Updated: '' @ ''2024-01-01 00:00:00 UTC'' @ r1"
    by (auto simp: cycle_ok_def html_escape_def escape_char_def)
  from cycle_html_shape [OF h2] obtain r2 where
    r2: "h2 = join [nl] (html_head refresh_interval_seconds) @ [nl] @
              ''  <p>Last Updated: '' @ ''2024-01-01 00:05:00 UTC'' @ r2"
    by (auto simp: cycle_fetch_failed_def html_escape_def escape_char_def)
  have ne: "h2 \<noteq> h1"
    unfolding r1 r2 by simp
  have s1: "dashboard_html (refresh_dashboard_periodically example_rt [cycle_ok] main_state) = h1"
    using h1 by (simp add: refresh_cycle_eq sleep_def)
  have s2: "dashboard_html
      (refresh_dashboard_periodically example_rt [cycle_ok, cycle_fetch_failed] main_state) = h2"
    using h1 h2 by (simp add: refresh_cycle_eq sleep_def)
  have tr: "trace (refresh_dashboard_periodically example_rt [cycle_ok] main_state) =
     [EvFetch, EvPublish h1, EvSleep 300]"
    using h1 by (simp add: refresh_cycle_eq sleep_def main_state_def module_state_def
        refresh_interval_seconds_def)
  show ?thesis
    using ne s1 s2 tr by (simp add: cycle_fetch_failed_def fetch_videos_try_def)
qed

text \<open>
  C1 as amended: if the fetch of cycle N fails, \<^verbatim>\<open>fetch_videos\<close> hands the empty list
  to the cycle, which then runs to its end exactly as after a successful fetch of zero
  videos: it renders the page for no videos, stamped with the time of cycle N, and
  publishes it, so a read after cycle N returns that page. The page is never empty, and
  with the ASCII timestamp the clock gives, the handler serves it as it is.
\<close>

theorem failed_fetch_publishes_empty_dashboard:
  assumes "fetch_videos_try w = Inl e"
  shows "\<exists>h. cycle_html rt (Parsed (PList []), now) = Inr h \<and> h \<noteq> [] \<and>
             refresh_cycle rt (w, now) s =
               s\<lparr>dashboard_html := h, trace := trace s @ [EvFetch, EvPublish h]\<rparr> \<and>
             (is_ascii now \<and> is_ascii (round_pct rt 0 1000) \<longrightarrow>
                do_GET ''/'' (refresh_cycle rt (w, now) s) =
                  \<lparr>status_code = 200,
                   headers = [(''Content-type'', ''text/html; charset=utf-8'')],
                   body = h,
                   raised = None\<rparr>)"
proof -
  obtain h where h: "cycle_html rt (Parsed (PList []), now) = Inr h"
    using cycle_html_empty by blast
  from h have ne: "h \<noteq> []" by (rule cycle_html_nonempty)
  from fetch_failed_same_as_empty [OF assms] h have c: "cycle_html rt (w, now) = Inr h"
    by simp
  have r: "refresh_cycle rt (w, now) s =
      s\<lparr>dashboard_html := h, trace := trace s @ [EvFetch, EvPublish h]\<rparr>"
    using c by (simp add: refresh_cycle_eq)
  have g: "do_GET ''/'' (refresh_cycle rt (w, now) s) =
      \<lparr>status_code = 200,
       headers = [(''Content-type'', ''text/html; charset=utf-8'')],
       body = h,
       raised = None\<rparr>"
    if "is_ascii now \<and> is_ascii (round_pct rt 0 1000)"
  proof -
    from that have "is_ascii h"
      using cycle_html_empty_ascii [OF h] by simp
    then have "\<not> has_surrogate h" by (rule is_ascii_no_surrogate)
    with ne show ?thesis
      by (simp add: r do_GET_def Let_def encode_utf8_def)
  qed
  from h ne r g show ?thesis by blast
qed

theorem failed_fetch_publishes_empty_dashboard_witness:
  "fetch_videos_try RequestFailed = Inl RequestException \<and>
   is_ascii ''2024-01-01 00:05:00 UTC'' \<and>
   is_ascii (round_pct example_rt 0 1000) \<and>
   (\<exists>h. cycle_html example_rt (Parsed (PList []), ''2024-01-01 00:05:00 UTC'') = Inr h \<and>
        refresh_cycle example_rt (RequestFailed, ''2024-01-01 00:05:00 UTC'') main_state =
          main_state\<lparr>dashboard_html := h, trace := [EvFetch, EvPublish h]\<rparr> \<and>
        do_GET ''/''
          (refresh_cycle example_rt (RequestFailed, ''2024-01-01 00:05:00 UTC'') main_state) =
          \<lparr>status_code = 200,
           headers = [(''Content-type'', ''text/html; charset=utf-8'')],
           body = h,
           raised = None\<rparr>)"
proof -
  have a: "fetch_videos_try RequestFailed = Inl RequestException"
    by (simp add: fetch_videos_try_def)
  have b: "is_ascii ''2024-01-01 00:05:00 UTC''" by simp
  have c: "is_ascii (round_pct example_rt 0 1000)"
    by (simp add: example_rt_def str_int_def str_nat.simps digit_char_def)
  have t: "trace main_state = []"
    by (simp add: main_state_def module_state_def)
  from failed_fetch_publishes_empty_dashboard
    [OF a, of example_rt "''2024-01-01 00:05:00 UTC''" main_state] a b c t
  show ?thesis
    by auto
qed

end
